theory Spec2Isabelle
  imports Complex_Main
begin

section \<open>JavaScript values\<close>

text \<open>
  A JavaScript number is an IEEE 754 double. \<open>Fin r\<close> is the finite double whose exact
  value is the real \<open>r\<close> (the two zeros are not told apart); a decimal literal of the
  source stands for the double nearest to it. The other three constructors are the
  special values \<open>NaN\<close>, \<open>-Infinity\<close> and \<open>Infinity\<close>.
\<close>

datatype jsnum = NaN | NegInfinity | Fin real | PosInfinity

text \<open>
  The values that reach the scalar fields and the arithmetic of the module: \<open>undefined\<close>,
  numbers and strings.
\<close>

datatype jsval = Undefined | Number jsnum | Str string

datatype binop = OpSub | OpMul | OpDiv | OpExp

text \<open>A two-dimensional vector is an array of numbers.\<close>

type_synonym vector = "jsnum list"

text \<open>
  The names that \<open>AtmosphereModel.js\<close> imports, and the arithmetic of the engine that
  runs it, are not part of the file. They are parameters of the model:
  \<^item> the four constants read from \<open>ENVIRONMENT\<close> in \<open>constants/environmentConstants\<close>
    (a constant that the object does not have reads as \<open>undefined\<close>);
  \<^item> \<open>degreesToRadians\<close>, \<open>vectorize_2d\<close> and \<open>vscale\<close>;
  \<^item> \<open>ieee\<close>, the result of a binary operation of the engine on two operands that are
    not \<open>NaN\<close>, rounding and overflow included;
  \<^item> \<open>parse_numeric\<close>, the number that a string converts to when it is written in the
    characters of a numeric literal.
\<close>

record environment =
  DEFAULT_SEA_LEVEL_TEMPERATURE_K :: jsval
  DEFAULT_SEA_LEVEL_PRESSURE_INHG :: jsval
  DEFAULT_SEA_LEVEL_TEMPERATURE :: jsval
  DEFAULT_SEA_LEVEL_WIND_VECTOR :: "vector option"

record externals =
  ENVIRONMENT :: environment
  degreesToRadians :: "jsval \<Rightarrow> jsval"
  vectorize_2d :: "jsval \<Rightarrow> vector"
  vscale :: "vector \<Rightarrow> jsval \<Rightarrow> vector"
  ieee :: "binop \<Rightarrow> jsnum \<Rightarrow> jsnum \<Rightarrow> jsnum"
  parse_numeric :: "string \<Rightarrow> jsnum"

subsection \<open>Conversion to a number\<close>

text \<open>
  \<open>StringToNumber\<close> gives \<open>NaN\<close> for every string that is not a numeric literal between
  white space. A numeric literal is decimal (digits, sign, point, \<open>e\<close> or \<open>E\<close>), the
  word \<open>Infinity\<close>, or a literal in base 16, 8 or 2 (\<open>x\<close>, \<open>o\<close>, \<open>b\<close> in either case and
  the letters \<open>a\<close> to \<open>f\<close> in either case). A string holding any other letter is
  therefore \<open>NaN\<close>; the remaining strings are left to \<open>parse_numeric\<close>.
\<close>

definition StringToNumber :: "externals \<Rightarrow> string \<Rightarrow> jsnum" where
  "StringToNumber X s =
     (if list_ex (\<lambda>c. c \<in> set ''ghjklmpqrsuvwzGHJKLMNPQRSTUVWYZ'') s then NaN
      else parse_numeric X s)"

fun ToNumber :: "externals \<Rightarrow> jsval \<Rightarrow> jsnum" where
  "ToNumber X Undefined = NaN"
| "ToNumber X (Number n) = n"
| "ToNumber X (Str s) = StringToNumber X s"

subsection \<open>Arithmetic and comparison\<close>

text \<open>
  An arithmetic operation with a \<open>NaN\<close> operand is \<open>NaN\<close>, but for exponentiation, where
  a zero exponent gives 1 whatever the base is. The results that IEEE 754 fixes whatever
  the rounding are written out: \<open>x - x\<close> is 0 for a finite \<open>x\<close>, \<open>x * 1\<close> and \<open>1 * x\<close> are
  \<open>x\<close>, \<open>x * 0\<close> and \<open>0 * x\<close> are 0 for a finite \<open>x\<close>. Every other result is \<open>ieee\<close>.
\<close>

fun is_finite :: "jsnum \<Rightarrow> bool" where
  "is_finite (Fin r) = True"
| "is_finite x = False"

fun Number_op :: "externals \<Rightarrow> binop \<Rightarrow> jsnum \<Rightarrow> jsnum \<Rightarrow> jsnum" where
  "Number_op X OpExp base exponent =
     (if exponent = NaN then NaN
      else if exponent = Fin 0 then Fin 1
      else if base = NaN then NaN
      else ieee X OpExp base exponent)"
| "Number_op X OpSub x y =
     (if x = NaN \<or> y = NaN then NaN
      else if is_finite x \<and> y = x then Fin 0
      else ieee X OpSub x y)"
| "Number_op X OpMul x y =
     (if x = NaN \<or> y = NaN then NaN
      else if y = Fin 1 then x
      else if x = Fin 1 then y
      else if is_finite x \<and> y = Fin 0 then Fin 0
      else if x = Fin 0 \<and> is_finite y then Fin 0
      else ieee X OpMul x y)"
| "Number_op X OpDiv x y = (if x = NaN \<or> y = NaN then NaN else ieee X OpDiv x y)"

definition arith :: "externals \<Rightarrow> binop \<Rightarrow> jsval \<Rightarrow> jsval \<Rightarrow> jsval" where
  "arith X opr a b = Number (Number_op X opr (ToNumber X a) (ToNumber X b))"

definition js_sub :: "externals \<Rightarrow> jsval \<Rightarrow> jsval \<Rightarrow> jsval" where
  "js_sub X a b = arith X OpSub a b"

definition js_mul :: "externals \<Rightarrow> jsval \<Rightarrow> jsval \<Rightarrow> jsval" where
  "js_mul X a b = arith X OpMul a b"

definition js_div :: "externals \<Rightarrow> jsval \<Rightarrow> jsval \<Rightarrow> jsval" where
  "js_div X a b = arith X OpDiv a b"

definition js_pow :: "externals \<Rightarrow> jsval \<Rightarrow> jsval \<Rightarrow> jsval" where
  "js_pow X a b = arith X OpExp a b"

text \<open>\<open>x < y\<close> on numbers: false as soon as one side is \<open>NaN\<close>.\<close>

fun num_lt :: "jsnum \<Rightarrow> jsnum \<Rightarrow> bool" where
  "num_lt NaN y = False"
| "num_lt x NaN = False"
| "num_lt (Fin x) (Fin y) = (x < y)"
| "num_lt x NegInfinity = False"
| "num_lt PosInfinity y = False"
| "num_lt NegInfinity y = True"
| "num_lt (Fin x) PosInfinity = True"

text \<open>\<open>x >= y\<close> is the negation of \<open>x < y\<close>, except that it is false when one side is \<open>NaN\<close>.\<close>

definition num_ge :: "jsnum \<Rightarrow> jsnum \<Rightarrow> bool" where
  "num_ge x y = (if x = NaN \<or> y = NaN then False else \<not> num_lt x y)"

definition js_gt :: "externals \<Rightarrow> jsval \<Rightarrow> jsval \<Rightarrow> bool" where
  "js_gt X a b = num_lt (ToNumber X b) (ToNumber X a)"

text \<open>The constant \<open>Math.E\<close>, the double nearest to e, with its exact value.\<close>

definition Math_E :: jsval where
  "Math_E = Number (Fin 2.718281828459045090795598298427648842334747314453125)"

text \<open>
  \<open>inRange\<close> of lodash 4, called with three numbers:
  \<open>number >= Math.min(start, end) && number < Math.max(start, end)\<close>.
\<close>

definition inRange :: "jsnum \<Rightarrow> int \<Rightarrow> int \<Rightarrow> bool" where
  "inRange number start finish =
     (num_ge number (Fin (of_int (min start finish))) \<and>
      num_lt number (Fin (of_int (max start finish))))"

subsection \<open>Objects keyed by numbers\<close>

text \<open>
  A gradient is an object whose property names are all made from numbers. Converting a
  number to a property name is injective, so the object is a map from numbers to values;
  \<open>key alt\<close> is the name made from the loop counter \<open>alt\<close>. Reading a name that the
  object does not have gives \<open>undefined\<close>.
\<close>

type_synonym gradient = "jsnum \<rightharpoonup> jsval"

definition key :: "int \<Rightarrow> jsnum" where
  "key alt = Fin (of_int alt)"

definition property :: "gradient \<Rightarrow> jsnum \<Rightarrow> jsval" where
  "property obj k = (case obj k of None \<Rightarrow> Undefined | Some v \<Rightarrow> v)"

subsection \<open>Counting loops\<close>

text \<open>
  \<open>for (let alt = a; alt < b; alt++) body\<close> and the same loop with \<open>alt <= b\<close>. The counter
  stays among the integers that a double holds exactly, so it is an \<open>int\<close>.
\<close>

function for_lt :: "int \<Rightarrow> int \<Rightarrow> (int \<Rightarrow> 's \<Rightarrow> 's) \<Rightarrow> 's \<Rightarrow> 's" where
  "for_lt alt bound body s =
     (if alt < bound then for_lt (alt + 1) bound body (body alt s) else s)"
  by pat_completeness auto
termination
  by (relation "measure (\<lambda>(alt, bound, body, s). nat (bound - alt))") auto

function for_le :: "int \<Rightarrow> int \<Rightarrow> (int \<Rightarrow> 's \<Rightarrow> 's) \<Rightarrow> 's \<Rightarrow> 's" where
  "for_le alt bound body s =
     (if alt \<le> bound then for_le (alt + 1) bound body (body alt s) else s)"
  by pat_completeness auto
termination
  by (relation "measure (\<lambda>(alt, bound, body, s). nat (bound + 1 - alt))") auto

declare for_lt.simps [simp del]
declare for_le.simps [simp del]

section \<open>The atmosphere model\<close>

datatype error =
  AltitudeOutOfRange jsnum
  | CannotReadPropertyOfUndefined string

text \<open>
  Both errors are a \<open>TypeError\<close>: the first is thrown by
  \<open>getTemperatureAtActualAltitude\<close> with the altitude in its message, the second by the
  engine when a property of \<open>undefined\<close> is read.
\<close>

record wind =
  angle :: jsval
  speed :: jsval

text \<open>
  The argument of the constructor. A field that the object does not have is
  \<open>Undefined\<close>, and \<open>None\<close> for \<open>surfaceWind\<close>.
\<close>

record data =
  surfaceTemperature :: jsval
  surfaceElevation :: jsval
  surfaceWind :: "wind option"

text \<open>
  The fields of an instance. \<open>seaLevelWindVector\<close> is \<open>None\<close> until it is assigned: the
  constructor does not initialise it.
\<close>

record model =
  seaLevelTemperature :: jsval
  seaLevelPressure :: jsval
  seaLevelWindVector :: "vector option"
  densityGradient :: gradient
  pressureGradient :: gradient
  temperatureGradient :: gradient

definition initDensityGradient :: "externals \<Rightarrow> model \<Rightarrow> model" where
  "initDensityGradient X this =
     for_le (- 2000) 65617
       (\<lambda>alt t. t\<lparr>densityGradient := (densityGradient t)(key alt \<mapsto>
          js_div X
            (js_mul X (Number (Fin 11.796888418)) (property (pressureGradient t) (key alt)))
            (property (temperatureGradient t) (key alt)))\<rparr>)
       (this\<lparr>densityGradient := Map.empty\<rparr>)"

text \<open>The formula of the troposphere loop of \<open>_initPressureGradient\<close>, at \<open>alt\<close>.\<close>

definition troposphere_pressure :: "externals \<Rightarrow> jsval \<Rightarrow> jsval \<Rightarrow> int \<Rightarrow> jsval" where
  "troposphere_pressure X b0ReferencePressure b0ReferenceTemperature alt =
     js_mul X b0ReferencePressure
       (js_pow X
          (js_div X
             (js_sub X b0ReferenceTemperature
                (js_mul X (Number (Fin 0.00198121311)) (Number (key alt))))
             b0ReferenceTemperature)
          (Number (Fin 5.255876329)))"

text \<open>The formula of its stratosphere loop, at \<open>alt\<close>.\<close>

definition stratosphere_pressure :: "externals \<Rightarrow> jsval \<Rightarrow> int \<Rightarrow> jsval" where
  "stratosphere_pressure X b1ReferencePressure alt =
     js_mul X b1ReferencePressure
       (js_pow X Math_E
          (js_mul X (Number (Fin (- 0.0000480634303)))
             (js_sub X (Number (key alt)) (Number (key 36089)))))"

definition initPressureGradient :: "externals \<Rightarrow> model \<Rightarrow> model" where
  "initPressureGradient X this =
     (let this1 = this\<lparr>pressureGradient := Map.empty\<rparr>;
          b0ReferencePressure = seaLevelPressure this1;
          b0ReferenceTemperature = seaLevelTemperature this1;
          b1ReferencePressure =
            js_mul X (seaLevelPressure this1)
              (js_pow X
                 (js_div X
                    (js_sub X b0ReferenceTemperature
                       (js_mul X (Number (Fin 0.00198121311)) (Number (key 36089))))
                    b0ReferenceTemperature)
                 (Number (Fin 5.255876329)));
          this2 = for_lt (- 2000) 36089
            (\<lambda>alt t. t\<lparr>pressureGradient := (pressureGradient t)(key alt \<mapsto>
               troposphere_pressure X b0ReferencePressure b0ReferenceTemperature alt)\<rparr>)
            this1
      in for_le 36089 65617
           (\<lambda>alt t. t\<lparr>pressureGradient := (pressureGradient t)(key alt \<mapsto>
              stratosphere_pressure X b1ReferencePressure alt)\<rparr>)
           this2)"

definition initTemperatureFromSurfaceTemperature :: "externals \<Rightarrow> jsval \<Rightarrow> model \<Rightarrow> model" where
  "initTemperatureFromSurfaceTemperature X surfaceTemperature' this =
     (let this1 =
        (if surfaceTemperature' = Undefined
         then this\<lparr>seaLevelTemperature := DEFAULT_SEA_LEVEL_TEMPERATURE (ENVIRONMENT X)\<rparr>
         else this)
      in this1\<lparr>seaLevelTemperature := Str ''calculated new value''\<rparr>)"

text \<open>The formula of the troposphere loop of \<open>_initTemperatureGradient\<close>, at \<open>alt\<close>.\<close>

definition troposphere_temperature :: "externals \<Rightarrow> jsval \<Rightarrow> int \<Rightarrow> jsval" where
  "troposphere_temperature X seaLevelTemperature' alt =
     js_sub X seaLevelTemperature'
       (js_mul X (Number (Fin 0.00198121311)) (Number (key alt)))"

definition initTemperatureGradient :: "externals \<Rightarrow> model \<Rightarrow> model" where
  "initTemperatureGradient X this =
     (let this1 = this\<lparr>temperatureGradient := Map.empty\<rparr>;
          this2 = for_lt (- 2000) 36089
            (\<lambda>alt t. t\<lparr>temperatureGradient := (temperatureGradient t)(key alt \<mapsto>
               troposphere_temperature X (seaLevelTemperature t) alt)\<rparr>)
            this1
      in for_le 36089 65617
           (\<lambda>alt t. t\<lparr>temperatureGradient := (temperatureGradient t)(key alt \<mapsto>
              js_sub X (seaLevelTemperature t)
                (js_mul X (Number (Fin 0.00198121311)) (Number (key 36089))))\<rparr>)
           this2)"

text \<open>
  The last statement reads \<open>surfaceWind.angle\<close> whether or not \<open>surfaceWind\<close> is
  \<open>undefined\<close>; on \<open>undefined\<close> the read throws.
\<close>

definition initWindFromSurfaceWind :: "externals \<Rightarrow> wind option \<Rightarrow> model \<Rightarrow> error + model" where
  "initWindFromSurfaceWind X surfaceWind' this =
     (let this1 =
        (if surfaceWind' = None
         then this\<lparr>seaLevelWindVector := DEFAULT_SEA_LEVEL_WIND_VECTOR (ENVIRONMENT X)\<rparr>
         else this)
      in case surfaceWind' of
           None \<Rightarrow> Inl (CannotReadPropertyOfUndefined ''angle'')
         | Some w \<Rightarrow>
             Inr (this1\<lparr>seaLevelWindVector :=
               Some (vscale X (vectorize_2d X (degreesToRadians X (angle w))) (speed w))\<rparr>))"

definition init :: "externals \<Rightarrow> data \<Rightarrow> model \<Rightarrow> error + model" where
  "init X d this =
     (let this1 = initTemperatureFromSurfaceTemperature X (surfaceTemperature d) this
      in case initWindFromSurfaceWind X (surfaceWind d) this1 of
           Inl e \<Rightarrow> Inl e
         | Inr this2 \<Rightarrow>
             Inr (initDensityGradient X
                   (initTemperatureGradient X (initPressureGradient X this2))))"

text \<open>The constructor: \<open>new AtmosphereModel(data)\<close>.\<close>

definition AtmosphereModel :: "externals \<Rightarrow> data \<Rightarrow> error + model" where
  "AtmosphereModel X d =
     init X d
       \<lparr>seaLevelTemperature = DEFAULT_SEA_LEVEL_TEMPERATURE_K (ENVIRONMENT X),
        seaLevelPressure = DEFAULT_SEA_LEVEL_PRESSURE_INHG (ENVIRONMENT X),
        seaLevelWindVector = None,
        densityGradient = Map.empty,
        pressureGradient = Map.empty,
        temperatureGradient = Map.empty\<rparr>"

text \<open>The methods with an empty body return \<open>undefined\<close>.\<close>

definition getActualAltitudeForPressureAltitude :: "model \<Rightarrow> jsval \<Rightarrow> error + jsval" where
  "getActualAltitudeForPressureAltitude this pressureAltitude = Inr Undefined"

definition getPressureAltitudeForActualAltitude :: "model \<Rightarrow> jsval \<Rightarrow> error + jsval" where
  "getPressureAltitudeForActualAltitude this actualAltitude = Inr Undefined"

definition getDensityAltitudeForActualAltitude :: "model \<Rightarrow> jsval \<Rightarrow> error + jsval" where
  "getDensityAltitudeForActualAltitude this actualAltitude = Inr Undefined"

text \<open>The altitude is a number; \<open>inRange\<close> then compares it as it is.\<close>

definition getTemperatureAtActualAltitude :: "model \<Rightarrow> jsnum \<Rightarrow> error + jsval" where
  "getTemperatureAtActualAltitude this actualAltitude =
     (if \<not> inRange actualAltitude (- 2000) 65617
      then Inl (AltitudeOutOfRange actualAltitude)
      else Inr (property (temperatureGradient this) actualAltitude))"

definition getSoundSpeedAtActualAltitude :: "model \<Rightarrow> jsval \<Rightarrow> error + jsval" where
  "getSoundSpeedAtActualAltitude this actualAltitude = Inr Undefined"

definition getWindAtActualAltitude :: "model \<Rightarrow> jsval \<Rightarrow> error + jsval" where
  "getWindAtActualAltitude this actualAltitude = Inr Undefined"


section \<open>Closed forms and sample inputs\<close>

text \<open>The loop counter that a property name was made from, if there is one.\<close>

fun alt_of :: "jsnum \<Rightarrow> int option" where
  "alt_of (Fin r) = (if r \<in> \<int> then Some \<lfloor>r\<rfloor> else None)"
| "alt_of x = None"

text \<open>
  The object that a loop from \<open>lo\<close> up to, but not including, \<open>hi\<close> leaves when it stores
  \<open>f alt\<close> under \<open>key alt\<close> in the object \<open>g\<close>.
\<close>

definition table :: "int \<Rightarrow> int \<Rightarrow> (int \<Rightarrow> jsval) \<Rightarrow> gradient \<Rightarrow> gradient" where
  "table lo hi f g =
     (\<lambda>k. case alt_of k of
            None \<Rightarrow> g k
          | Some j \<Rightarrow> (if lo \<le> j \<and> j < hi then Some (f j) else g k))"

text \<open>
  An instance of the parameters, for concrete evaluations: the constants of the standard
  atmosphere, arithmetic on finite operands without rounding, and for the three vector
  helpers functions that agree with them on a wind of angle 0 and speed 0.
\<close>

definition exact_arith :: "binop \<Rightarrow> jsnum \<Rightarrow> jsnum \<Rightarrow> jsnum" where
  "exact_arith opr x y =
     (case (x, y) of
        (Fin a, Fin b) \<Rightarrow>
          (case opr of
             OpSub \<Rightarrow> Fin (a - b)
           | OpMul \<Rightarrow> Fin (a * b)
           | OpDiv \<Rightarrow> (if b = 0 then NaN else Fin (a / b))
           | OpExp \<Rightarrow> (if a \<le> 0 then NaN else Fin (a powr b)))
      | _ \<Rightarrow> NaN)"

definition sample_externals :: externals where
  "sample_externals =
     \<lparr>ENVIRONMENT =
        \<lparr>DEFAULT_SEA_LEVEL_TEMPERATURE_K = Number (Fin 288.15),
         DEFAULT_SEA_LEVEL_PRESSURE_INHG = Number (Fin 29.92),
         DEFAULT_SEA_LEVEL_TEMPERATURE = Number (Fin 288.15),
         DEFAULT_SEA_LEVEL_WIND_VECTOR = Some [Fin 0, Fin 0]\<rparr>,
      degreesToRadians = (\<lambda>degrees. degrees),
      vectorize_2d = (\<lambda>direction. [Fin 0, Fin 1]),
      vscale = (\<lambda>v factor. map (\<lambda>x. Fin 0) v),
      ieee = exact_arith,
      parse_numeric = (\<lambda>s. NaN)\<rparr>"

text \<open>The input \<open>{surfaceWind: {angle: 0, speed: 0}}\<close>, with no surface temperature.\<close>

definition calm_data :: data where
  "calm_data =
     \<lparr>surfaceTemperature = Undefined,
      surfaceElevation = Undefined,
      surfaceWind = Some \<lparr>angle = Number (Fin 0), speed = Number (Fin 0)\<rparr>\<rparr>"

text \<open>The input \<open>{}\<close>.\<close>

definition empty_data :: data where
  "empty_data =
     \<lparr>surfaceTemperature = Undefined, surfaceElevation = Undefined, surfaceWind = None\<rparr>"

text \<open>The instance that \<open>new AtmosphereModel({surfaceWind: {angle: 0, speed: 0}})\<close> returns.\<close>

definition calm_model :: model where
  "calm_model =
     initDensityGradient sample_externals
       (initTemperatureGradient sample_externals
          (initPressureGradient sample_externals
             \<lparr>seaLevelTemperature = Str ''calculated new value'',
              seaLevelPressure = Number (Fin 29.92),
              seaLevelWindVector = Some [Fin 0, Fin 0],
              densityGradient = Map.empty,
              pressureGradient = Map.empty,
              temperatureGradient = Map.empty\<rparr>))"

text \<open>
  The fields of an instance as \<open>_initDensityGradient\<close> could find them: the pressure
  and temperature gradients hold 32 inHg and 256 K at 0 ft. With these powers of two
  the product and the quotient are exact in IEEE 754.
\<close>

definition numeric_state :: model where
  "numeric_state =
     \<lparr>seaLevelTemperature = Number (Fin 288.15),
      seaLevelPressure = Number (Fin 29.92),
      seaLevelWindVector = Some [Fin 0, Fin 0],
      densityGradient = Map.empty,
      pressureGradient = Map.empty(key 0 \<mapsto> Number (Fin 32)),
      temperatureGradient = Map.empty(key 0 \<mapsto> Number (Fin 256))\<rparr>"

section \<open>Property names, tables and loops\<close>

lemma alt_of_key [simp]: "alt_of (key j) = Some j"
  by (simp add: key_def)

lemma alt_of_Some: "alt_of k = Some j \<Longrightarrow> k = key j"
  by (cases k) (auto simp: key_def split: if_splits elim: Ints_cases)

lemma key_inj [simp]: "key i = key j \<longleftrightarrow> i = j"
  by (simp add: key_def)

lemma key_image_iff [simp]: "key j \<in> key ` S \<longleftrightarrow> j \<in> S"
  by auto

lemma table_key: "table lo hi f g (key j) = (if lo \<le> j \<and> j < hi then Some (f j) else g (key j))"
  by (simp add: table_def)

lemma table_same [simp]: "table lo lo f g = g"
  by (rule ext) (auto simp: table_def split: option.splits)

lemma table_step: "lo \<le> alt \<Longrightarrow> (table lo alt f g)(key alt \<mapsto> f alt) = table lo (alt + 1) f g"
  by (rule ext) (auto simp: table_def split: option.splits dest: alt_of_Some)

lemma dom_table: "dom (table lo hi f g) = dom g \<union> key ` {lo..<hi}"
proof (rule set_eqI)
  fix k
  show "k \<in> dom (table lo hi f g) \<longleftrightarrow> k \<in> dom g \<union> key ` {lo..<hi}"
  proof (cases "alt_of k")
    case None
    then have "k \<notin> key ` {lo..<hi}" by auto
    then show ?thesis using None by (auto simp: table_def)
  next
    case (Some j)
    then have k: "k = key j" by (rule alt_of_Some)
    show ?thesis unfolding k by (auto simp: table_key dom_def)
  qed
qed

lemma for_lt_invariant:
  assumes "lo \<le> hi" and "I lo s"
    and "\<And>alt t. lo \<le> alt \<Longrightarrow> alt < hi \<Longrightarrow> I alt t \<Longrightarrow> I (alt + 1) (body alt t)"
  shows "I hi (for_lt lo hi body s)"
  using assms
proof (induction lo hi body s rule: for_lt.induct)
  case (1 alt bound body s)
  show ?case
  proof (cases "alt < bound")
    case True
    have "I (alt + 1) (body alt s)" using 1(3,4) True by simp
    moreover have "alt + 1 \<le> bound" using True by simp
    ultimately have "I bound (for_lt (alt + 1) bound body (body alt s))"
      using 1(1)[OF True] 1(4) by simp
    then show ?thesis using True by (simp add: for_lt.simps[of alt])
  next
    case False
    then have "alt = bound" using 1(2) by simp
    then show ?thesis using 1(3) by (simp add: for_lt.simps[of bound])
  qed
qed

lemma for_le_lt: "for_le lo hi body s = for_lt lo (hi + 1) body s"
proof (induction lo hi body s rule: for_le.induct)
  case (1 alt bound body s)
  then show ?case
    by (simp add: for_le.simps[of alt] for_lt.simps[of alt])
qed

lemma temperature_loop:
  assumes "lo \<le> hi"
  shows "for_lt lo hi
           (\<lambda>alt t. t\<lparr>temperatureGradient := (temperatureGradient t)(key alt \<mapsto> f (seaLevelTemperature t) alt)\<rparr>) s
         = s\<lparr>temperatureGradient := table lo hi (f (seaLevelTemperature s)) (temperatureGradient s)\<rparr>"
  by (rule for_lt_invariant[where I = "\<lambda>alt t. t = s\<lparr>temperatureGradient := table lo alt (f (seaLevelTemperature s)) (temperatureGradient s)\<rparr>", OF assms])
     (simp_all add: table_step)

lemma pressure_loop:
  assumes "lo \<le> hi"
  shows "for_lt lo hi
           (\<lambda>alt t. t\<lparr>pressureGradient := (pressureGradient t)(key alt \<mapsto> f alt)\<rparr>) s
         = s\<lparr>pressureGradient := table lo hi f (pressureGradient s)\<rparr>"
  by (rule for_lt_invariant[where I = "\<lambda>alt t. t = s\<lparr>pressureGradient := table lo alt f (pressureGradient s)\<rparr>", OF assms])
     (simp_all add: table_step)

lemma density_loop:
  assumes "lo \<le> hi"
  shows "for_lt lo hi
           (\<lambda>alt t. t\<lparr>densityGradient := (densityGradient t)(key alt \<mapsto> f (pressureGradient t) (temperatureGradient t) alt)\<rparr>) s
         = s\<lparr>densityGradient := table lo hi (f (pressureGradient s) (temperatureGradient s)) (densityGradient s)\<rparr>"
  by (rule for_lt_invariant[where I = "\<lambda>alt t. t = s\<lparr>densityGradient := table lo alt (f (pressureGradient s) (temperatureGradient s)) (densityGradient s)\<rparr>", OF assms])
     (simp_all add: table_step)


lemma initTemperatureGradient_eq:
  "initTemperatureGradient X this =
     this\<lparr>temperatureGradient :=
       table 36089 65618 (\<lambda>alt. troposphere_temperature X (seaLevelTemperature this) 36089)
         (table (- 2000) 36089 (troposphere_temperature X (seaLevelTemperature this)) Map.empty)\<rparr>"
proof -
  have fold_strat: "\<And>T. js_sub X T (js_mul X (Number (Fin 0.00198121311)) (Number (key 36089)))
      = troposphere_temperature X T 36089"
    by (simp add: troposphere_temperature_def)
  show ?thesis
    unfolding initTemperatureGradient_def Let_def for_le_lt fold_strat
    by (simp add: temperature_loop[where f = "troposphere_temperature X"]
        temperature_loop[where f = "\<lambda>T alt. troposphere_temperature X T 36089"])
qed

lemma initPressureGradient_eq:
  "initPressureGradient X this =
     this\<lparr>pressureGradient :=
       table 36089 65618
         (stratosphere_pressure X
            (troposphere_pressure X (seaLevelPressure this) (seaLevelTemperature this) 36089))
         (table (- 2000) 36089
            (troposphere_pressure X (seaLevelPressure this) (seaLevelTemperature this))
            Map.empty)\<rparr>"
proof -
  have fold_b1: "\<And>P T. js_mul X P
       (js_pow X
          (js_div X
             (js_sub X T (js_mul X (Number (Fin 0.00198121311)) (Number (key 36089)))) T)
          (Number (Fin 5.255876329)))
      = troposphere_pressure X P T 36089"
    by (simp add: troposphere_pressure_def)
  show ?thesis
    unfolding initPressureGradient_def Let_def for_le_lt fold_b1
    by (simp add: pressure_loop)
qed

lemma initDensityGradient_eq:
  "initDensityGradient X this =
     this\<lparr>densityGradient :=
       table (- 2000) 65618
         (\<lambda>alt. js_div X
            (js_mul X (Number (Fin 11.796888418)) (property (pressureGradient this) (key alt)))
            (property (temperatureGradient this) (key alt)))
         Map.empty\<rparr>"
  unfolding initDensityGradient_def for_le_lt
  using density_loop[where f = "\<lambda>P T alt. js_div X
            (js_mul X (Number (Fin 11.796888418)) (property P (key alt)))
            (property T (key alt))", of "- 2000" 65618 "this\<lparr>densityGradient := Map.empty\<rparr>"]
  by simp

lemma placeholder_NaN: "ToNumber X (Str ''calculated new value'') = NaN"
  by (simp add: StringToNumber_def)

lemma troposphere_temperature_NaN:
  "troposphere_temperature X (Str ''calculated new value'') alt = Number NaN"
  by (simp add: troposphere_temperature_def js_sub_def arith_def placeholder_NaN del: ToNumber.simps(3))

lemma troposphere_pressure_NaN:
  "troposphere_pressure X P (Str ''calculated new value'') alt = Number NaN"
  by (simp add: troposphere_pressure_def js_sub_def js_div_def js_pow_def js_mul_def arith_def
      placeholder_NaN del: ToNumber.simps(3))

lemma stratosphere_pressure_NaN:
  "stratosphere_pressure X (Number NaN) alt = Number NaN"
  by (simp add: stratosphere_pressure_def js_mul_def arith_def)

lemma AtmosphereModel_Inr:
  assumes "AtmosphereModel X d = Inr m"
  shows "\<exists>this. m = initDensityGradient X (initTemperatureGradient X (initPressureGradient X this))
           \<and> seaLevelTemperature this = Str ''calculated new value''"
  using assms
  by (auto simp: AtmosphereModel_def init_def initWindFromSurfaceWind_def
      initTemperatureFromSurfaceTemperature_def Let_def split: option.splits)

lemma AtmosphereModel_calm:
  "AtmosphereModel sample_externals calm_data = Inr calm_model"
  by (simp add: AtmosphereModel_def init_def initWindFromSurfaceWind_def
      initTemperatureFromSurfaceTemperature_def Let_def calm_data_def calm_model_def
      sample_externals_def)

section \<open>What the constructor builds\<close>

lemma inRange_iff:
  "inRange a (- 2000) 65617 \<longleftrightarrow> (\<exists>r. a = Fin r \<and> - 2000 \<le> r \<and> r < 65617)"
  by (cases a) (auto simp: inRange_def num_ge_def)

lemma inRange_key:
  "inRange (key alt) (- 2000) 65617 \<longleftrightarrow> - 2000 \<le> alt \<and> alt < 65617"
proof -
  have "inRange (key alt) (- 2000) 65617 \<longleftrightarrow> - 2000 \<le> real_of_int alt \<and> real_of_int alt < 65617"
    by (simp add: inRange_iff key_def)
  also have "\<dots> \<longleftrightarrow> - 2000 \<le> alt \<and> alt < 65617"
    by linarith
  finally show ?thesis .
qed

lemma built_temperatureGradient:
  assumes "m = initDensityGradient X (initTemperatureGradient X (initPressureGradient X this))"
  shows "temperatureGradient m =
       table 36089 65618 (\<lambda>alt. troposphere_temperature X (seaLevelTemperature this) 36089)
         (table (- 2000) 36089 (troposphere_temperature X (seaLevelTemperature this)) Map.empty)"
  unfolding assms
  by (simp add: initDensityGradient_eq initTemperatureGradient_eq initPressureGradient_eq)

lemma built_pressureGradient:
  assumes "m = initDensityGradient X (initTemperatureGradient X (initPressureGradient X this))"
  shows "pressureGradient m =
       table 36089 65618
         (stratosphere_pressure X
            (troposphere_pressure X (seaLevelPressure this) (seaLevelTemperature this) 36089))
         (table (- 2000) 36089
            (troposphere_pressure X (seaLevelPressure this) (seaLevelTemperature this))
            Map.empty)"
  unfolding assms
  by (simp add: initDensityGradient_eq initTemperatureGradient_eq initPressureGradient_eq)

lemma built_densityGradient:
  assumes "m = initDensityGradient X (initTemperatureGradient X (initPressureGradient X this))"
  shows "densityGradient m =
       table (- 2000) 65618
         (\<lambda>alt. js_div X
            (js_mul X (Number (Fin 11.796888418)) (property (pressureGradient m) (key alt)))
            (property (temperatureGradient m) (key alt)))
         Map.empty"
  unfolding assms
  by (simp add: initDensityGradient_eq)

lemma built_seaLevelTemperature:
  assumes "m = initDensityGradient X (initTemperatureGradient X (initPressureGradient X this))"
  shows "seaLevelTemperature m = seaLevelTemperature this"
  unfolding assms
  by (simp add: initDensityGradient_eq initTemperatureGradient_eq initPressureGradient_eq)

lemma domain_union: "key ` {- 2000..<36089} \<union> key ` {36089..<65618} = key ` {- 2000..65617}"
  by (auto simp: image_Un[symmetric])

lemma constructed_temperature_dom:
  assumes "AtmosphereModel X d = Inr m"
  shows "dom (temperatureGradient m) = key ` {- 2000..65617}"
proof -
  from AtmosphereModel_Inr[OF assms] obtain this where
    m: "m = initDensityGradient X (initTemperatureGradient X (initPressureGradient X this))"
    by blast
  show ?thesis
    by (simp add: built_temperatureGradient[OF m] dom_table domain_union)
qed

lemma constructed_pressure_dom:
  assumes "AtmosphereModel X d = Inr m"
  shows "dom (pressureGradient m) = key ` {- 2000..65617}"
proof -
  from AtmosphereModel_Inr[OF assms] obtain this where
    m: "m = initDensityGradient X (initTemperatureGradient X (initPressureGradient X this))"
    by blast
  show ?thesis
    by (simp add: built_pressureGradient[OF m] dom_table domain_union)
qed

lemma constructed_density_dom:
  assumes "AtmosphereModel X d = Inr m"
  shows "dom (densityGradient m) = key ` {- 2000..65617}"
proof -
  from AtmosphereModel_Inr[OF assms] obtain this where
    m: "m = initDensityGradient X (initTemperatureGradient X (initPressureGradient X this))"
    by blast
  have "key ` {- 2000..<65618} = key ` {- 2000..65617}" by auto
  then show ?thesis
    by (simp add: built_densityGradient[OF m] dom_table)
qed

lemma constructed_temperature_NaN:
  assumes "AtmosphereModel X d = Inr m" and "- 2000 \<le> alt" and "alt \<le> 65617"
  shows "temperatureGradient m (key alt) = Some (Number NaN)"
proof -
  from AtmosphereModel_Inr[OF assms(1)] obtain this where
    m: "m = initDensityGradient X (initTemperatureGradient X (initPressureGradient X this))"
    and T: "seaLevelTemperature this = Str ''calculated new value''"
    by blast
  show ?thesis using assms(2,3)
    by (simp add: built_temperatureGradient[OF m] T table_key troposphere_temperature_NaN)
qed

lemma constructed_pressure_NaN:
  assumes "AtmosphereModel X d = Inr m" and "- 2000 \<le> alt" and "alt \<le> 65617"
  shows "pressureGradient m (key alt) = Some (Number NaN)"
proof -
  from AtmosphereModel_Inr[OF assms(1)] obtain this where
    m: "m = initDensityGradient X (initTemperatureGradient X (initPressureGradient X this))"
    and T: "seaLevelTemperature this = Str ''calculated new value''"
    by blast
  show ?thesis using assms(2,3)
    by (simp add: built_pressureGradient[OF m] T table_key troposphere_pressure_NaN
        stratosphere_pressure_NaN)
qed

lemma constructed_seaLevelTemperature:
  assumes "AtmosphereModel X d = Inr m"
  shows "seaLevelTemperature m = Str ''calculated new value''"
proof -
  from AtmosphereModel_Inr[OF assms(1)] obtain this where
    m: "m = initDensityGradient X (initTemperatureGradient X (initPressureGradient X this))"
    and T: "seaLevelTemperature this = Str ''calculated new value''"
    by blast
  show ?thesis by (simp add: built_seaLevelTemperature[OF m] T)
qed

lemma AtmosphereModel_calm_any:
  "\<exists>m. AtmosphereModel X calm_data = Inr m"
  by (simp add: AtmosphereModel_def init_def initWindFromSurfaceWind_def
      initTemperatureFromSurfaceTemperature_def Let_def calm_data_def)

lemma stratosphere_pressure_boundary:
  "stratosphere_pressure X (troposphere_pressure X P T 36089) 36089 = troposphere_pressure X P T 36089"
  by (simp add: stratosphere_pressure_def troposphere_pressure_def js_mul_def js_sub_def js_pow_def
      arith_def Math_E_def key_def)

lemma half_not_int: "(1 / 2 :: real) \<notin> \<int>"
proof
  assume "(1 / 2 :: real) \<in> \<int>"
  then obtain z :: int where "1 / 2 = real_of_int z" by (auto elim: Ints_cases)
  then have "real_of_int (2 * z) = real_of_int 1" by simp
  then have "2 * z = 1" by (simp only: of_int_eq_iff)
  then show False by presburger
qed

section \<open>The query interface\<close>

text \<open>
  C1. For every integer altitude within [-2000, 65617),
  \<open>getTemperatureAtActualAltitude\<close> returns the entry of the temperature gradient at
  that altitude; for every number that is not within [-2000, 65617), \<open>NaN\<close> and the
  infinities included, it throws the out-of-range error. In particular -2001 and 65617
  fail and 65616 succeeds. This holds of every instance.
\<close>

theorem range_validation:
  "(- 2000 \<le> alt \<and> alt < 65617 \<longrightarrow>
      getTemperatureAtActualAltitude this (key alt)
        = Inr (property (temperatureGradient this) (key alt)))
   \<and> (\<not> (\<exists>r. a = Fin r \<and> - 2000 \<le> r \<and> r < 65617) \<longrightarrow>
      getTemperatureAtActualAltitude this a = Inl (AltitudeOutOfRange a))
   \<and> getTemperatureAtActualAltitude this (key (- 2001)) = Inl (AltitudeOutOfRange (key (- 2001)))
   \<and> getTemperatureAtActualAltitude this (key 65617) = Inl (AltitudeOutOfRange (key 65617))
   \<and> getTemperatureAtActualAltitude this (key 65616)
        = Inr (property (temperatureGradient this) (key 65616))"
proof -
  have inside: "- 2000 \<le> j \<and> j < 65617 \<longrightarrow>
      getTemperatureAtActualAltitude this (key j)
        = Inr (property (temperatureGradient this) (key j))" for j
    by (simp add: getTemperatureAtActualAltitude_def inRange_key)
  have outside: "\<not> (\<exists>r. b = Fin r \<and> - 2000 \<le> r \<and> r < 65617) \<longrightarrow>
      getTemperatureAtActualAltitude this b = Inl (AltitudeOutOfRange b)" for b
    unfolding getTemperatureAtActualAltitude_def inRange_iff by simp
  have below: "getTemperatureAtActualAltitude this (key (- 2001))
      = Inl (AltitudeOutOfRange (key (- 2001)))"
    by (simp add: getTemperatureAtActualAltitude_def inRange_key)
  have above: "getTemperatureAtActualAltitude this (key 65617)
      = Inl (AltitudeOutOfRange (key 65617))"
    by (simp add: getTemperatureAtActualAltitude_def inRange_key)
  from inside outside below above inside[of 65616] show ?thesis
    by simp
qed

text \<open>
  On the instance built from a calm wind: altitude 0 is in range and its entry is
  returned, \<open>Infinity\<close> is not and the error is thrown.
\<close>

theorem range_validation_witness:
  "((- 2000 :: int) \<le> 0 \<and> (0 :: int) < 65617)
   \<and> getTemperatureAtActualAltitude calm_model (key 0) = Inr (Number NaN)
   \<and> \<not> (\<exists>r. PosInfinity = Fin r \<and> - 2000 \<le> r \<and> r < 65617)
   \<and> getTemperatureAtActualAltitude calm_model PosInfinity = Inl (AltitudeOutOfRange PosInfinity)"
  using range_validation[of 0 calm_model PosInfinity]
    constructed_temperature_NaN[OF AtmosphereModel_calm, of 0]
  by (simp add: property_def)

text \<open>
  C10. On a constructed instance, an altitude that is not an integer and lies strictly
  between -2000 and 65617 passes the range check, and the read of the temperature
  gradient gives \<open>undefined\<close>: the gradient has entries at integer altitudes only.
\<close>

theorem fractional_altitude_reads_undefined:
  assumes "AtmosphereModel X d = Inr m" and "r \<notin> \<int>" and "- 2000 < r" and "r < 65617"
  shows "getTemperatureAtActualAltitude m (Fin r) = Inr Undefined"
proof -
  have no_alt: "alt_of (Fin r) = None" using assms(2) by simp
  have "Fin r \<notin> key ` {- 2000..65617}"
  proof
    assume "Fin r \<in> key ` {- 2000..65617}"
    then obtain j where "Fin r = key j" by auto
    then have "alt_of (Fin r) = Some j" by (simp only: alt_of_key)
    with no_alt show False by simp
  qed
  then have "temperatureGradient m (Fin r) = None"
    using constructed_temperature_dom[OF assms(1)] by blast
  moreover have "inRange (Fin r) (- 2000) 65617"
    using assms(3,4) by (simp add: inRange_iff)
  ultimately show ?thesis
    by (simp add: getTemperatureAtActualAltitude_def property_def)
qed

theorem fractional_altitude_reads_undefined_witness:
  "AtmosphereModel sample_externals calm_data = Inr calm_model
   \<and> (1 / 2 :: real) \<notin> \<int> \<and> (- 2000 :: real) < 1 / 2 \<and> (1 / 2 :: real) < 65617
   \<and> getTemperatureAtActualAltitude calm_model (Fin (1 / 2)) = Inr Undefined"
  using fractional_altitude_reads_undefined[OF AtmosphereModel_calm half_not_int]
    AtmosphereModel_calm half_not_int
  by simp

text \<open>
  C9. The five methods with an empty body signal nothing: for every instance and every
  argument each of them returns \<open>undefined\<close> and throws no error. The first theorem is
  the sound-speed query at 10000 ft on the instance built from a calm wind.
\<close>

theorem unimplemented_query_counterexample:
  "getSoundSpeedAtActualAltitude calm_model (Number (Fin 10000)) = Inr Undefined
   \<and> \<not> isl (getSoundSpeedAtActualAltitude calm_model (Number (Fin 10000)))"
  by (simp add: getSoundSpeedAtActualAltitude_def)

text \<open>
  C9, as the code has it: each of the five unimplemented queries returns \<open>undefined\<close>,
  whatever the instance and the argument are.
\<close>

theorem unimplemented_queries_return_undefined:
  "getSoundSpeedAtActualAltitude this x = Inr Undefined
   \<and> getWindAtActualAltitude this x = Inr Undefined
   \<and> getActualAltitudeForPressureAltitude this x = Inr Undefined
   \<and> getPressureAltitudeForActualAltitude this x = Inr Undefined
   \<and> getDensityAltitudeForActualAltitude this x = Inr Undefined"
  by (simp add: getSoundSpeedAtActualAltitude_def getWindAtActualAltitude_def
      getActualAltitudeForPressureAltitude_def getPressureAltitudeForActualAltitude_def
      getDensityAltitudeForActualAltitude_def)

section \<open>Construction\<close>

text \<open>
  C2. With \<open>surfaceTemperature\<close> absent the sea-level temperature of the instance is not
  the constant of the standard atmosphere: whatever the imported constants are, it is the
  string \<open>'calculated new value'\<close>, which converts to \<open>NaN\<close>. The assignment of the
  default in \<open>_initTemperatureFromSurfaceTemperature\<close> is followed by an unconditional
  assignment of that string.
\<close>

theorem seaLevelTemperature_is_placeholder:
  "\<exists>m. AtmosphereModel X calm_data = Inr m
     \<and> surfaceTemperature calm_data = Undefined
     \<and> seaLevelTemperature m = Str ''calculated new value''
     \<and> ToNumber X (seaLevelTemperature m) = NaN"
proof -
  obtain m where m: "AtmosphereModel X calm_data = Inr m"
    using AtmosphereModel_calm_any by blast
  show ?thesis
    using m constructed_seaLevelTemperature[OF m]
    by (simp add: calm_data_def placeholder_NaN del: ToNumber.simps(3))
qed

text \<open>
  C3. With \<open>surfaceWind\<close> absent the constructor does not return: after the default has
  been assigned, \<open>_initWindFromSurfaceWind\<close> goes on to read \<open>surfaceWind.angle\<close>, and
  the read of a property of \<open>undefined\<close> throws.
\<close>

theorem construction_without_surfaceWind_throws:
  "surfaceWind empty_data = None
   \<and> AtmosphereModel X empty_data = Inl (CannotReadPropertyOfUndefined ''angle'')"
  by (simp add: AtmosphereModel_def init_def initWindFromSurfaceWind_def Let_def empty_data_def)

section \<open>The gradients\<close>

text \<open>
  C4. Whatever the pressure and temperature gradients of the instance hold when
  \<open>_initDensityGradient\<close> runs, numbers or not, it leaves them as they are and stores at
  every integer altitude from -2000 to 65617 the value of
  \<open>11.796888418 * pressure / temperature\<close> on their entries at that altitude.
  \<open>_initDensityGradient\<close> is the last step of the constructor, so the relation holds
  between the three gradients of every constructed instance. The equality is that of
  the stored number with the value of the expression; on a constructed instance that
  value is \<open>NaN\<close>, as are the pressure and the temperature (C7, C8).
\<close>

theorem density_consistency:
  "(- 2000 \<le> alt \<and> alt \<le> 65617 \<longrightarrow>
      densityGradient (initDensityGradient X this) (key alt) =
        Some (js_div X
          (js_mul X (Number (Fin 11.796888418)) (property (pressureGradient this) (key alt)))
          (property (temperatureGradient this) (key alt))))
   \<and> pressureGradient (initDensityGradient X this) = pressureGradient this
   \<and> temperatureGradient (initDensityGradient X this) = temperatureGradient this
   \<and> (AtmosphereModel X d = Inr m \<and> - 2000 \<le> alt \<and> alt \<le> 65617 \<longrightarrow>
      densityGradient m (key alt) =
        Some (js_div X
          (js_mul X (Number (Fin 11.796888418)) (property (pressureGradient m) (key alt)))
          (property (temperatureGradient m) (key alt))))"
proof -
  have stored: "densityGradient (initDensityGradient X this) (key alt) =
        Some (js_div X
          (js_mul X (Number (Fin 11.796888418)) (property (pressureGradient this) (key alt)))
          (property (temperatureGradient this) (key alt)))"
    if "- 2000 \<le> alt" and "alt \<le> 65617"
    using that by (simp add: initDensityGradient_eq table_key)
  have pressure_kept: "pressureGradient (initDensityGradient X this) = pressureGradient this"
    by (simp add: initDensityGradient_eq)
  have temperature_kept:
    "temperatureGradient (initDensityGradient X this) = temperatureGradient this"
    by (simp add: initDensityGradient_eq)
  have constructed: "densityGradient m (key alt) =
        Some (js_div X
          (js_mul X (Number (Fin 11.796888418)) (property (pressureGradient m) (key alt)))
          (property (temperatureGradient m) (key alt)))"
    if built: "AtmosphereModel X d = Inr m" and "- 2000 \<le> alt" and "alt \<le> 65617"
  proof -
    from AtmosphereModel_Inr[OF built] obtain that_state where
      m: "m = initDensityGradient X
            (initTemperatureGradient X (initPressureGradient X that_state))"
      by blast
    show ?thesis
      using that(2,3) by (simp add: built_densityGradient[OF m] table_key)
  qed
  from stored pressure_kept temperature_kept constructed show ?thesis
    by blast
qed

text \<open>
  At 0 ft, with 32 inHg and 256 K in the two gradients, the density stored is
  \<open>11.796888418 * 32 / 256 = 1.47461105225\<close>; on the instance built from a calm
  wind the relation holds between the three entries at 0 ft.
\<close>

theorem density_consistency_witness:
  "((- 2000 :: int) \<le> 0 \<and> (0 :: int) \<le> 65617)
   \<and> densityGradient (initDensityGradient sample_externals numeric_state) (key 0)
       = Some (Number (Fin 1.47461105225))
   \<and> pressureGradient (initDensityGradient sample_externals numeric_state) (key 0)
       = Some (Number (Fin 32))
   \<and> temperatureGradient (initDensityGradient sample_externals numeric_state) (key 0)
       = Some (Number (Fin 256))
   \<and> AtmosphereModel sample_externals calm_data = Inr calm_model
   \<and> densityGradient calm_model (key 0) =
     Some (js_div sample_externals
       (js_mul sample_externals (Number (Fin 11.796888418))
          (property (pressureGradient calm_model) (key 0)))
       (property (temperatureGradient calm_model) (key 0)))"
proof -
  have value_at_0:
    "js_div sample_externals
       (js_mul sample_externals (Number (Fin 11.796888418))
          (property (pressureGradient numeric_state) (key 0)))
       (property (temperatureGradient numeric_state) (key 0))
     = Number (Fin 1.47461105225)"
    by (simp add: numeric_state_def property_def js_div_def js_mul_def arith_def
        sample_externals_def exact_arith_def)
  have kept_at_0:
    "pressureGradient numeric_state (key 0) = Some (Number (Fin 32))
     \<and> temperatureGradient numeric_state (key 0) = Some (Number (Fin 256))"
    by (simp add: numeric_state_def)
  from density_consistency[of 0 sample_externals numeric_state calm_data calm_model]
    value_at_0 kept_at_0 AtmosphereModel_calm
  show ?thesis by simp
qed

text \<open>
  C5. After construction the three gradients have the same property names, those made
  from the integers from -2000 to 65617, and none of these entries is \<open>undefined\<close>. An
  object has one value for a name, so each altitude has exactly one entry.
\<close>

theorem domain_completeness:
  assumes "AtmosphereModel X d = Inr m"
  shows "dom (pressureGradient m) = key ` {- 2000..65617}
     \<and> dom (temperatureGradient m) = key ` {- 2000..65617}
     \<and> dom (densityGradient m) = key ` {- 2000..65617}
     \<and> (- 2000 \<le> alt \<and> alt \<le> 65617 \<longrightarrow>
          property (pressureGradient m) (key alt) \<noteq> Undefined
          \<and> property (temperatureGradient m) (key alt) \<noteq> Undefined
          \<and> property (densityGradient m) (key alt) \<noteq> Undefined)"
proof -
  have "property (densityGradient m) (key alt) \<noteq> Undefined"
    if "- 2000 \<le> alt" and "alt \<le> 65617"
  proof -
    from AtmosphereModel_Inr[OF assms] obtain this where
      m: "m = initDensityGradient X (initTemperatureGradient X (initPressureGradient X this))"
      by blast
    show ?thesis
      using that
      by (simp add: built_densityGradient[OF m] table_key property_def js_div_def arith_def)
  qed
  moreover have "property (pressureGradient m) (key alt) \<noteq> Undefined"
    if "- 2000 \<le> alt" and "alt \<le> 65617"
    using constructed_pressure_NaN[OF assms that] by (simp add: property_def)
  moreover have "property (temperatureGradient m) (key alt) \<noteq> Undefined"
    if "- 2000 \<le> alt" and "alt \<le> 65617"
    using constructed_temperature_NaN[OF assms that] by (simp add: property_def)
  ultimately show ?thesis
    using constructed_pressure_dom[OF assms] constructed_temperature_dom[OF assms]
      constructed_density_dom[OF assms]
    by simp
qed

theorem domain_completeness_witness:
  "AtmosphereModel sample_externals calm_data = Inr calm_model
   \<and> dom (pressureGradient calm_model) = key ` {- 2000..65617}
   \<and> dom (temperatureGradient calm_model) = key ` {- 2000..65617}
   \<and> dom (densityGradient calm_model) = key ` {- 2000..65617}
   \<and> ((- 2000 :: int) \<le> 36089 \<and> (36089 :: int) \<le> 65617)
   \<and> property (pressureGradient calm_model) (key 36089) \<noteq> Undefined
   \<and> property (temperatureGradient calm_model) (key 36089) \<noteq> Undefined
   \<and> property (densityGradient calm_model) (key 36089) \<noteq> Undefined"
  using domain_completeness[OF AtmosphereModel_calm, of 36089] AtmosphereModel_calm
  by simp

text \<open>
  C6. At 36089 ft the two layers agree, whatever the sea-level temperature and pressure
  of the instance are. The entry that \<open>_initTemperatureGradient\<close> leaves at 36089, the
  constant of the stratosphere loop, is the value of the troposphere formula at 36089.
  The entry that \<open>_initPressureGradient\<close> leaves at 36089, the reference pressure times
  \<open>Math.E ** (-0.0000480634303 * (36089 - 36089))\<close>, is the value of the troposphere
  formula at 36089. The equality is that of the stored number with the value of the
  formula.
\<close>

theorem boundary_continuity:
  "temperatureGradient (initTemperatureGradient X this) (key 36089)
     = Some (troposphere_temperature X (seaLevelTemperature this) 36089)
   \<and> pressureGradient (initPressureGradient X this) (key 36089)
     = Some (stratosphere_pressure X
         (troposphere_pressure X (seaLevelPressure this) (seaLevelTemperature this) 36089) 36089)
   \<and> stratosphere_pressure X
       (troposphere_pressure X (seaLevelPressure this) (seaLevelTemperature this) 36089) 36089
     = troposphere_pressure X (seaLevelPressure this) (seaLevelTemperature this) 36089"
  by (simp add: initTemperatureGradient_eq initPressureGradient_eq table_key
      stratosphere_pressure_boundary)

text \<open>
  C7. Pressure does not decrease with altitude on a constructed instance. Built from a
  calm wind and no surface temperature, whatever the imported constants are, the
  instance has \<open>NaN\<close> at 0 ft and at 1 ft, and \<open>NaN > NaN\<close> is false: the sea-level
  temperature that the formulas read is the string \<open>'calculated new value'\<close>.
\<close>

theorem pressure_is_not_decreasing:
  "\<exists>m. AtmosphereModel X calm_data = Inr m
     \<and> property (pressureGradient m) (key 0) = Number NaN
     \<and> property (pressureGradient m) (key 1) = Number NaN
     \<and> \<not> js_gt X (property (pressureGradient m) (key 0)) (property (pressureGradient m) (key 1))"
proof -
  obtain m where m: "AtmosphereModel X calm_data = Inr m"
    using AtmosphereModel_calm_any by blast
  show ?thesis
    using m constructed_pressure_NaN[OF m, of 0] constructed_pressure_NaN[OF m, of 1]
    by (simp add: property_def js_gt_def)
qed

text \<open>
  C8. Temperature does not decrease with altitude below 36089 ft on a constructed
  instance. Built from a calm wind and no surface temperature, whatever the imported
  constants are, the instance has \<open>NaN\<close> at 0 ft and at 1 ft, and \<open>NaN > NaN\<close> is
  false, for the same reason.
\<close>

theorem temperature_is_not_decreasing:
  "\<exists>m. AtmosphereModel X calm_data = Inr m
     \<and> property (temperatureGradient m) (key 0) = Number NaN
     \<and> property (temperatureGradient m) (key 1) = Number NaN
     \<and> \<not> js_gt X (property (temperatureGradient m) (key 0))
           (property (temperatureGradient m) (key 1))"
proof -
  obtain m where m: "AtmosphereModel X calm_data = Inr m"
    using AtmosphereModel_calm_any by blast
  show ?thesis
    using m constructed_temperature_NaN[OF m, of 0] constructed_temperature_NaN[OF m, of 1]
    by (simp add: property_def js_gt_def)
qed

end
